theory Spec2Isabelle
  imports Complex_Main "HOL-Library.AList" "HOL-Library.Sublist"
begin

section \<open>Python values\<close>

text \<open>
  The values that travel through the client are the ones Python's \<open>json\<close> module produces
  and consumes. A \<open>dict\<close> keeps its keys in insertion order, so it is an association list
  that is read with \<open>map_of\<close> and written with \<open>AList.update\<close> (an existing key keeps its
  place, a new key goes to the end, as in Python). Floating-point numbers stay opaque.
\<close>

typedecl pyfloat

datatype pyval =
    PNone
  | PBool bool
  | PInt int
  | PFloat pyfloat
  | PStr string
  | PList "pyval list"
  | PDict "(string \<times> pyval) list"

text \<open>The exceptions the modelled code can let escape.\<close>

datatype py_error =
    JSONDecodeError
  | AttributeError
  | TypeError
  | RequestError

text \<open>\<open>d.get(k)\<close>: the value stored under \<open>k\<close>, and \<open>None\<close> when the key is missing.\<close>

definition dict_get :: "(string \<times> pyval) list \<Rightarrow> string \<Rightarrow> pyval" where
  "dict_get d k = (case map_of d k of None \<Rightarrow> PNone | Some v \<Rightarrow> v)"

text \<open>\<open>d[k] = v\<close>.\<close>

definition dict_setitem :: "(string \<times> pyval) list \<Rightarrow> string \<Rightarrow> pyval \<Rightarrow> (string \<times> pyval) list" where
  "dict_setitem d k v = AList.update k v d"

text \<open>
  The truth value of an \<open>Optional[str]\<close> in a condition: \<open>None\<close> and the empty string are
  false, every other string is true.
\<close>

fun str_truthy :: "string option \<Rightarrow> bool" where
  "str_truthy None = False"
| "str_truthy (Some s) = (s \<noteq> [])"

section \<open>The HTTP library\<close>

text \<open>
  \<open>httpx\<close> is not part of the repository. What the client relies on is modelled here:
  a client object holds defaults (base URL, headers, timeout); \<open>Client.request\<close> joins the
  endpoint to the base URL, merges the per-call keyword arguments over the defaults, hands
  the resulting request to the transport and returns the transport's answer. The transport
  (the network, or a mock) is a parameter. The list of requests handed to the transport
  so far is threaded through every call, so that the number of requests an operation
  issues can be stated.
\<close>

record http_request =
  req_method :: string
  req_url :: string
  req_headers :: "(string \<times> string) list"
  req_params :: "pyval option"
  req_json :: "pyval option"
  req_timeout :: real

record http_response =
  status_code :: nat
  content :: string

type_synonym transport = "http_request \<Rightarrow> py_error + http_response"

record httpx_Client =
  base_url :: string
  headers :: "(string \<times> string) list"
  timeout :: real
  transport :: transport

text \<open>
  The keyword arguments of \<open>Client.request\<close> that matter here. \<open>None\<close> is the default of
  each, and means: nothing passed.
\<close>

record kwargs =
  kw_params :: "pyval option"
  kw_json :: "pyval option"
  kw_headers :: "(string \<times> string) list option"
  kw_timeout :: "real option"

definition no_kwargs :: kwargs where
  "no_kwargs = \<lparr>kw_params = None, kw_json = None, kw_headers = None, kw_timeout = None\<rparr>"

text \<open>
  Joining a relative reference to the base URL: the base path gets a trailing slash and the
  reference loses its leading ones. Every endpoint of this client starts with a slash
  followed by a fixed segment, so every endpoint is a relative reference.
\<close>

definition merge_url :: "string \<Rightarrow> string \<Rightarrow> string" where
  "merge_url base url = base @ ''/'' @ dropWhile (\<lambda>c. c = CHR ''/'') url"

definition merge_headers :: "(string \<times> string) list \<Rightarrow> (string \<times> string) list option \<Rightarrow> (string \<times> string) list" where
  "merge_headers hs extra =
     (case extra of None \<Rightarrow> hs | Some hs' \<Rightarrow> fold (\<lambda>(k, v). AList.update k v) hs' hs)"

definition build_request :: "httpx_Client \<Rightarrow> string \<Rightarrow> string \<Rightarrow> kwargs \<Rightarrow> http_request" where
  "build_request c method url kw =
     \<lparr>req_method = method,
      req_url = merge_url (base_url c) url,
      req_headers = merge_headers (headers c) (kw_headers kw),
      req_params = kw_params kw,
      req_json = kw_json kw,
      req_timeout = (case kw_timeout kw of None \<Rightarrow> timeout c | Some t \<Rightarrow> t)\<rparr>"

type_synonym 'a net = "http_request list \<Rightarrow> 'a \<times> http_request list"

definition Client_request :: "httpx_Client \<Rightarrow> string \<Rightarrow> string \<Rightarrow> kwargs \<Rightarrow> (py_error + http_response) net" where
  "Client_request c method url kw sent =
     (let r = build_request c method url kw in (transport c r, sent @ [r]))"

text \<open>
  \<open>Response.json()\<close> decodes the body with the JSON decoder, which is a parameter
  (\<open>None\<close>: the text is not JSON, and the decoder raises). The status code plays no part.
\<close>

type_synonym json_loads = "string \<Rightarrow> pyval option"

definition Response_json :: "json_loads \<Rightarrow> http_response \<Rightarrow> py_error + pyval" where
  "Response_json loads response =
     (case loads (content response) of None \<Rightarrow> Inl JSONDecodeError | Some v \<Rightarrow> Inr v)"

section \<open>api.py: the client\<close>

definition API_BASE :: string where
  "API_BASE = ''https://www.moltbook.com/api/v1''"

record MoltbookClient =
  api_key :: string
  client :: httpx_Client

text \<open>\<open>__init__\<close>; the transport is the one the process runs against.\<close>

definition init :: "transport \<Rightarrow> string \<Rightarrow> MoltbookClient" where
  "init tr key =
     \<lparr>api_key = key,
      client = \<lparr>base_url = API_BASE,
                headers = [(''Authorization'', ''Bearer '' @ key)],
                timeout = 30,
                transport = tr\<rparr>\<rparr>"

text \<open>\<open>_request\<close>: whatever the transport or the decoder raises goes to the caller.\<close>

definition request' :: "json_loads \<Rightarrow> MoltbookClient \<Rightarrow> string \<Rightarrow> string \<Rightarrow> kwargs \<Rightarrow> (py_error + pyval) net" where
  "request' loads self method endpoint kw sent =
     (case Client_request (client self) method endpoint kw sent of
        (Inl e, sent') \<Rightarrow> (Inl e, sent')
      | (Inr response, sent') \<Rightarrow> (Response_json loads response, sent'))"

definition get :: "json_loads \<Rightarrow> MoltbookClient \<Rightarrow> string \<Rightarrow> kwargs \<Rightarrow> (py_error + pyval) net" where
  "get loads self endpoint kw = request' loads self ''GET'' endpoint kw"

definition post :: "json_loads \<Rightarrow> MoltbookClient \<Rightarrow> string \<Rightarrow> kwargs \<Rightarrow> (py_error + pyval) net" where
  "post loads self endpoint kw = request' loads self ''POST'' endpoint kw"

definition status :: "json_loads \<Rightarrow> MoltbookClient \<Rightarrow> (py_error + pyval) net" where
  "status loads self = get loads self ''/agents/status'' no_kwargs"

definition feed :: "json_loads \<Rightarrow> MoltbookClient \<Rightarrow> string \<Rightarrow> int \<Rightarrow> (py_error + pyval) net" where
  "feed loads self sort' limit =
     get loads self ''/feed''
       (no_kwargs\<lparr>kw_params := Some (PDict [(''sort'', PStr sort'), (''limit'', PInt limit)])\<rparr>)"

definition posts :: "json_loads \<Rightarrow> MoltbookClient \<Rightarrow> string \<Rightarrow> int \<Rightarrow> string option \<Rightarrow> (py_error + pyval) net" where
  "posts loads self sort' limit submolt =
     (let params = [(''sort'', PStr sort'), (''limit'', PInt limit)];
          params = (if str_truthy submolt
                    then dict_setitem params ''submolt'' (PStr (the submolt)) else params)
      in get loads self ''/posts'' (no_kwargs\<lparr>kw_params := Some (PDict params)\<rparr>))"

definition create_post :: "json_loads \<Rightarrow> MoltbookClient \<Rightarrow> string \<Rightarrow> string \<Rightarrow> string option \<Rightarrow> string option \<Rightarrow> (py_error + pyval) net" where
  "create_post loads self submolt content' title url =
     (let data = [(''submolt'', PStr submolt), (''content'', PStr content')];
          data = (if str_truthy title then dict_setitem data ''title'' (PStr (the title)) else data);
          data = (if str_truthy url then dict_setitem data ''url'' (PStr (the url)) else data)
      in post loads self ''/posts'' (no_kwargs\<lparr>kw_json := Some (PDict data)\<rparr>))"

definition get_post :: "json_loads \<Rightarrow> MoltbookClient \<Rightarrow> string \<Rightarrow> (py_error + pyval) net" where
  "get_post loads self post_id = get loads self (''/posts/'' @ post_id) no_kwargs"

definition create_comment :: "json_loads \<Rightarrow> MoltbookClient \<Rightarrow> string \<Rightarrow> string \<Rightarrow> string option \<Rightarrow> (py_error + pyval) net" where
  "create_comment loads self post_id content' parent_id =
     (let data = [(''content'', PStr content')];
          data = (if str_truthy parent_id
                  then dict_setitem data ''parent_id'' (PStr (the parent_id)) else data)
      in post loads self (''/posts/'' @ post_id @ ''/comments'')
           (no_kwargs\<lparr>kw_json := Some (PDict data)\<rparr>))"

definition upvote :: "json_loads \<Rightarrow> MoltbookClient \<Rightarrow> string \<Rightarrow> (py_error + pyval) net" where
  "upvote loads self post_id = post loads self (''/posts/'' @ post_id @ ''/upvote'') no_kwargs"

definition downvote :: "json_loads \<Rightarrow> MoltbookClient \<Rightarrow> string \<Rightarrow> (py_error + pyval) net" where
  "downvote loads self post_id = post loads self (''/posts/'' @ post_id @ ''/downvote'') no_kwargs"

definition dm_check :: "json_loads \<Rightarrow> MoltbookClient \<Rightarrow> (py_error + pyval) net" where
  "dm_check loads self = get loads self ''/agents/dm/check'' no_kwargs"

definition dm_conversations :: "json_loads \<Rightarrow> MoltbookClient \<Rightarrow> (py_error + pyval) net" where
  "dm_conversations loads self = get loads self ''/agents/dm/conversations'' no_kwargs"

definition dm_read :: "json_loads \<Rightarrow> MoltbookClient \<Rightarrow> string \<Rightarrow> (py_error + pyval) net" where
  "dm_read loads self conversation_id =
     get loads self (''/agents/dm/conversations/'' @ conversation_id) no_kwargs"

definition dm_send :: "json_loads \<Rightarrow> MoltbookClient \<Rightarrow> string \<Rightarrow> string \<Rightarrow> bool \<Rightarrow> (py_error + pyval) net" where
  "dm_send loads self conversation_id message needs_human_input =
     (let data = [(''message'', PStr message)];
          data = (if needs_human_input
                  then dict_setitem data ''needs_human_input'' (PBool True) else data)
      in post loads self (''/agents/dm/conversations/'' @ conversation_id @ ''/send'')
           (no_kwargs\<lparr>kw_json := Some (PDict data)\<rparr>))"

definition dm_request :: "json_loads \<Rightarrow> MoltbookClient \<Rightarrow> string \<Rightarrow> string \<Rightarrow> bool \<Rightarrow> (py_error + pyval) net" where
  "dm_request loads self to message by_owner =
     (let data = [(''message'', PStr message)];
          data = (if by_owner then dict_setitem data ''to_owner'' (PStr to)
                  else dict_setitem data ''to'' (PStr to))
      in post loads self ''/agents/dm/request'' (no_kwargs\<lparr>kw_json := Some (PDict data)\<rparr>))"

definition dm_requests :: "json_loads \<Rightarrow> MoltbookClient \<Rightarrow> (py_error + pyval) net" where
  "dm_requests loads self = get loads self ''/agents/dm/requests'' no_kwargs"

definition dm_approve :: "json_loads \<Rightarrow> MoltbookClient \<Rightarrow> string \<Rightarrow> (py_error + pyval) net" where
  "dm_approve loads self conversation_id =
     post loads self (''/agents/dm/requests/'' @ conversation_id @ ''/approve'') no_kwargs"

text \<open>An empty \<open>dict\<close> is false in a condition, so \<open>data if data else None\<close> passes no body.\<close>

definition dm_reject :: "json_loads \<Rightarrow> MoltbookClient \<Rightarrow> string \<Rightarrow> bool \<Rightarrow> (py_error + pyval) net" where
  "dm_reject loads self conversation_id block =
     (let data = [];
          data = (if block then dict_setitem data ''block'' (PBool True) else data)
      in post loads self (''/agents/dm/requests/'' @ conversation_id @ ''/reject'')
           (no_kwargs\<lparr>kw_json := (if data \<noteq> [] then Some (PDict data) else None)\<rparr>))"

definition submolts :: "json_loads \<Rightarrow> MoltbookClient \<Rightarrow> (py_error + pyval) net" where
  "submolts loads self = get loads self ''/submolts'' no_kwargs"

definition search :: "json_loads \<Rightarrow> MoltbookClient \<Rightarrow> string \<Rightarrow> (py_error + pyval) net" where
  "search loads self query =
     get loads self ''/search'' (no_kwargs\<lparr>kw_params := Some (PDict [(''q'', PStr query)])\<rparr>)"

text \<open>
  One invocation of an operation of the client, with its arguments; \<open>invoke\<close> runs it.
  This is how a statement about every operation is written.
\<close>

datatype call =
    Status
  | Feed string int
  | Posts string int "string option"
  | CreatePost string string "string option" "string option"
  | GetPost string
  | CreateComment string string "string option"
  | Upvote string
  | Downvote string
  | DmCheck
  | DmConversations
  | DmRead string
  | DmSend string string bool
  | DmRequest string string bool
  | DmRequests
  | DmApprove string
  | DmReject string bool
  | Submolts
  | Search string

fun invoke :: "json_loads \<Rightarrow> MoltbookClient \<Rightarrow> call \<Rightarrow> (py_error + pyval) net" where
  "invoke loads self Status = status loads self"
| "invoke loads self (Feed s l) = feed loads self s l"
| "invoke loads self (Posts s l sm) = posts loads self s l sm"
| "invoke loads self (CreatePost sm c t u) = create_post loads self sm c t u"
| "invoke loads self (GetPost p) = get_post loads self p"
| "invoke loads self (CreateComment p c pa) = create_comment loads self p c pa"
| "invoke loads self (Upvote p) = upvote loads self p"
| "invoke loads self (Downvote p) = downvote loads self p"
| "invoke loads self DmCheck = dm_check loads self"
| "invoke loads self DmConversations = dm_conversations loads self"
| "invoke loads self (DmRead c) = dm_read loads self c"
| "invoke loads self (DmSend c m h) = dm_send loads self c m h"
| "invoke loads self (DmRequest t m b) = dm_request loads self t m b"
| "invoke loads self DmRequests = dm_requests loads self"
| "invoke loads self (DmApprove c) = dm_approve loads self c"
| "invoke loads self (DmReject c b) = dm_reject loads self c b"
| "invoke loads self Submolts = submolts loads self"
| "invoke loads self (Search q) = search loads self q"

section \<open>config.py: the configuration store\<close>

text \<open>
  The part of the file system the module touches: whether the directory
  \<open>~/.moltbook\<close> exists, and the text of \<open>~/.moltbook/config.json\<close> when that file exists.
  The process environment is a map from names to values. The JSON encoder
  (\<open>json.dump\<close> with \<open>indent=2\<close>) and decoder are parameters. Faults of the operating
  system (permissions, a full disk) are outside the model.
\<close>

record fs =
  config_dir :: bool
  config_file :: "string option"

type_synonym json_dumps = "pyval \<Rightarrow> string"

type_synonym environ = "string \<Rightarrow> string option"

text \<open>\<open>config.get(k)\<close> and \<open>config[k] = v\<close> on whatever value the decoder returned.\<close>

fun py_get :: "pyval \<Rightarrow> string \<Rightarrow> py_error + pyval" where
  "py_get (PDict d) k = Inr (dict_get d k)"
| "py_get _ k = Inl AttributeError"

fun py_setitem :: "pyval \<Rightarrow> string \<Rightarrow> pyval \<Rightarrow> py_error + pyval" where
  "py_setitem (PDict d) k v = Inr (PDict (dict_setitem d k v))"
| "py_setitem _ k v = Inl TypeError"

definition get_config_dir :: "fs \<Rightarrow> fs" where
  "get_config_dir w = w\<lparr>config_dir := True\<rparr>"

definition load_config :: "json_loads \<Rightarrow> fs \<Rightarrow> py_error + pyval" where
  "load_config loads w =
     (case config_file w of
        Some text \<Rightarrow> (case loads text of None \<Rightarrow> Inl JSONDecodeError | Some v \<Rightarrow> Inr v)
      | None \<Rightarrow> Inr (PDict []))"

definition save_config :: "json_dumps \<Rightarrow> pyval \<Rightarrow> fs \<Rightarrow> fs" where
  "save_config dumps config w =
     (let w = get_config_dir w in w\<lparr>config_file := Some (dumps config)\<rparr>)"

definition get_api_key :: "json_loads \<Rightarrow> environ \<Rightarrow> fs \<Rightarrow> py_error + pyval" where
  "get_api_key loads env w =
     (let env_key = env ''MOLTBOOK_API_KEY'' in
      if str_truthy env_key then Inr (PStr (the env_key))
      else (case load_config loads w of
              Inl e \<Rightarrow> Inl e
            | Inr config \<Rightarrow> py_get config ''api_key''))"

definition set_api_key :: "json_loads \<Rightarrow> json_dumps \<Rightarrow> string \<Rightarrow> fs \<Rightarrow> py_error + fs" where
  "set_api_key loads dumps key w =
     (case load_config loads w of
        Inl e \<Rightarrow> Inl e
      | Inr config \<Rightarrow>
          (case py_setitem config ''api_key'' (PStr key) of
             Inl e \<Rightarrow> Inl e
           | Inr config' \<Rightarrow> Inr (save_config dumps config' w)))"

definition get_config_value :: "json_loads \<Rightarrow> string \<Rightarrow> fs \<Rightarrow> py_error + pyval" where
  "get_config_value loads key w =
     (case load_config loads w of
        Inl e \<Rightarrow> Inl e
      | Inr config \<Rightarrow> py_get config key)"

definition set_config_value :: "json_loads \<Rightarrow> json_dumps \<Rightarrow> string \<Rightarrow> string \<Rightarrow> fs \<Rightarrow> py_error + fs" where
  "set_config_value loads dumps key value w =
     (case load_config loads w of
        Inl e \<Rightarrow> Inl e
      | Inr config \<Rightarrow>
          (case py_setitem config key (PStr value) of
             Inl e \<Rightarrow> Inl e
           | Inr config' \<Rightarrow> Inr (save_config dumps config' w)))"

section \<open>Sample transports and texts\<close>

text \<open>
  A transport that answers every request with one fixed response, a decoder and an encoder
  that know a handful of JSON texts. They serve as concrete inputs.
\<close>

definition mock_transport :: "nat \<Rightarrow> string \<Rightarrow> transport" where
  "mock_transport code text request = Inr \<lparr>status_code = code, content = text\<rparr>"

definition invalid_token_text :: string where
  \<open>invalid_token_text = ''{"success": false, "error": "invalid_token", "hint": "check key"}''\<close>

definition posts_text :: string where
  \<open>posts_text = ''{"posts": [{"id": "abc"}]}''\<close>

definition filekey_text :: string where
  \<open>filekey_text = ''{"api_key": "FILEKEY"}''\<close>

definition filekey_x_text :: string where
  \<open>filekey_x_text = ''{"api_key": "FILEKEY", "x": "1"}''\<close>

definition sample_loads :: json_loads where
  "sample_loads text =
     (if text = invalid_token_text then
        Some (PDict [(''success'', PBool False), (''error'', PStr ''invalid_token''),
                     (''hint'', PStr ''check key'')])
      else if text = posts_text then
        Some (PDict [(''posts'', PList [PDict [(''id'', PStr ''abc'')]])])
      else if text = filekey_text then
        Some (PDict [(''api_key'', PStr ''FILEKEY'')])
      else if text = filekey_x_text then
        Some (PDict [(''api_key'', PStr ''FILEKEY''), (''x'', PStr ''1'')])
      else None)"

definition sample_dumps :: json_dumps where
  "sample_dumps v =
     (if v = PDict [(''api_key'', PStr ''FILEKEY'')] then filekey_text
      else if v = PDict [(''api_key'', PStr ''FILEKEY''), (''x'', PStr ''1'')] then filekey_x_text
      else [])"


section \<open>Properties of the client\<close>

lemmas sample_defs =
  mock_transport_def invalid_token_text_def posts_text_def filekey_text_def filekey_x_text_def
  sample_loads_def sample_dumps_def

lemmas operation_defs =
  status_def feed_def posts_def create_post_def get_post_def create_comment_def
  upvote_def downvote_def dm_check_def dm_conversations_def dm_read_def dm_send_def
  dm_request_def dm_requests_def dm_approve_def dm_reject_def submolts_def search_def
  get_def post_def

lemma request'_sent:
  "snd (request' loads self method endpoint kw sent) =
     sent @ [build_request (client self) method endpoint kw]"
  by (simp add: request'_def Client_request_def Let_def split: sum.splits)

lemma request'_fst:
  assumes "transport (client self) (build_request (client self) method endpoint kw) = Inr response"
      and "loads (content response) = Some body"
  shows "fst (request' loads self method endpoint kw sent) = Inr body"
  using assms by (simp add: request'_def Client_request_def Response_json_def Let_def)

lemma request'_body:
  assumes "request' loads self method endpoint kw sent = (res, sent')"
      and "transport (client self) (last sent') = Inr response"
      and "loads (content response) = Some body"
  shows "res = Inr body"
proof -
  have "sent' = sent @ [build_request (client self) method endpoint kw]"
    using assms(1) request'_sent [of loads self "method" endpoint kw sent] by simp
  then have "transport (client self) (build_request (client self) method endpoint kw) = Inr response"
    using assms(2) by simp
  then have "fst (request' loads self method endpoint kw sent) = Inr body"
    using assms(3) by (rule request'_fst)
  then show ?thesis using assms(1) by simp
qed

lemma invoke_is_request:
  "\<exists>method endpoint kw. invoke loads self c = request' loads self method endpoint kw"
  by (cases c) (simp_all add: operation_defs Let_def, blast+)

text \<open>
  Claim C1. Every operation returns the decoded response body as it is, whatever the status
  code of the response and whatever the body says about success: when the transport answers
  the request the operation issued, and the body of the answer decodes to a value, the
  operation returns that value and raises nothing.
\<close>

theorem operation_returns_parsed_body:
  assumes "invoke loads self c sent = (res, sent')"
      and "transport (client self) (last sent') = Inr response"
      and "loads (content response) = Some body"
  shows "res = Inr body"
proof -
  obtain verb endpoint kw
    where "invoke loads self c = request' loads self verb endpoint kw"
    using invoke_is_request by blast
  then have "request' loads self verb endpoint kw sent = (res, sent')"
    using assms(1) by simp
  then show ?thesis using assms(2,3) by (rule request'_body)
qed

theorem operation_returns_parsed_body_witness:
  "fst (invoke sample_loads (init (mock_transport 401 invalid_token_text) ''KEY'') Status []) =
     Inr (PDict [(''success'', PBool False), (''error'', PStr ''invalid_token''),
                 (''hint'', PStr ''check key'')])"
proof -
  let ?self = "init (mock_transport 401 invalid_token_text) ''KEY''"
  obtain res sent' where run: "invoke sample_loads ?self Status [] = (res, sent')"
    by (cases "invoke sample_loads ?self Status []") blast
  have answer: "transport (client ?self) (last sent') =
      Inr \<lparr>status_code = 401, content = invalid_token_text\<rparr>"
    by (simp add: init_def mock_transport_def)
  have decode: "sample_loads (content \<lparr>status_code = 401, content = invalid_token_text\<rparr>) =
      Some (PDict [(''success'', PBool False), (''error'', PStr ''invalid_token''),
                   (''hint'', PStr ''check key'')])"
    by (simp add: sample_defs)
  from operation_returns_parsed_body [OF run answer decode] run show ?thesis by simp
qed

text \<open>
  Claim C2, as stated, fails: a variable \<open>MOLTBOOK_API_KEY\<close> that is set to the empty string
  does not win. The condition \<open>if env_key\<close> is false for it, and the key of the config file
  is returned.
\<close>

theorem env_key_set_but_empty_counterexample:
  "get_api_key sample_loads (Map.empty(''MOLTBOOK_API_KEY'' \<mapsto> ''''))
     \<lparr>config_dir = True, config_file = Some filekey_text\<rparr> = Inr (PStr ''FILEKEY'')"
  by (simp add: get_api_key_def load_config_def dict_get_def sample_defs)

text \<open>
  Claim C2, amended. \<open>get_api_key\<close> returns the value of \<open>MOLTBOOK_API_KEY\<close> when the
  variable is set to a non-empty string, whatever the config file holds. When the variable
  is absent or empty, it returns what the loaded config map holds under \<open>api_key\<close>, and
  \<open>None\<close> when the map has no such key. When the variable is absent or empty and there is
  no config file, it returns \<open>None\<close>.
\<close>

theorem get_api_key_resolution:
  "(\<forall>k. env ''MOLTBOOK_API_KEY'' = Some k \<and> k \<noteq> [] \<longrightarrow>
        get_api_key loads env w = Inr (PStr k)) \<and>
   (\<forall>m. (env ''MOLTBOOK_API_KEY'' = None \<or> env ''MOLTBOOK_API_KEY'' = Some []) \<and>
        load_config loads w = Inr (PDict m) \<longrightarrow>
        get_api_key loads env w =
          Inr (case map_of m ''api_key'' of None \<Rightarrow> PNone | Some v \<Rightarrow> v)) \<and>
   ((env ''MOLTBOOK_API_KEY'' = None \<or> env ''MOLTBOOK_API_KEY'' = Some []) \<and>
        config_file w = None \<longrightarrow>
        get_api_key loads env w = Inr PNone)"
  by (auto simp add: get_api_key_def load_config_def dict_get_def Let_def)

theorem get_api_key_resolution_witness:
  "get_api_key sample_loads (Map.empty(''MOLTBOOK_API_KEY'' \<mapsto> ''ENVKEY''))
     \<lparr>config_dir = True, config_file = Some filekey_text\<rparr> = Inr (PStr ''ENVKEY'') \<and>
   get_api_key sample_loads Map.empty
     \<lparr>config_dir = True, config_file = Some filekey_text\<rparr> = Inr (PStr ''FILEKEY'') \<and>
   get_api_key sample_loads Map.empty
     \<lparr>config_dir = False, config_file = None\<rparr> = Inr PNone"
proof -
  let ?w = "\<lparr>config_dir = True, config_file = Some filekey_text\<rparr>"
  have loaded: "load_config sample_loads ?w = Inr (PDict [(''api_key'', PStr ''FILEKEY'')])"
    by (simp add: load_config_def sample_defs)
  have "get_api_key sample_loads (Map.empty(''MOLTBOOK_API_KEY'' \<mapsto> ''ENVKEY'')) ?w =
      Inr (PStr ''ENVKEY'')"
    using get_api_key_resolution
      [of "Map.empty(''MOLTBOOK_API_KEY'' \<mapsto> ''ENVKEY'')" sample_loads ?w]
    by simp
  moreover have "get_api_key sample_loads Map.empty ?w = Inr (PStr ''FILEKEY'')"
    using get_api_key_resolution [of Map.empty sample_loads ?w] loaded by simp
  moreover have "get_api_key sample_loads Map.empty \<lparr>config_dir = False, config_file = None\<rparr> =
      Inr PNone"
    using get_api_key_resolution
      [of Map.empty sample_loads "\<lparr>config_dir = False, config_file = None\<rparr>"]
    by simp
  ultimately show ?thesis by simp
qed

text \<open>
  Claim C3, as stated, fails in its last part: an optional string that is passed but empty
  is not included. \<open>create_post\<close> with \<open>title=""\<close> sends a body without the key \<open>title\<close>.
\<close>

theorem optional_field_present_but_empty_counterexample:
  "snd (create_post sample_loads (init (mock_transport 200 posts_text) ''KEY'')
          ''general'' ''hello'' (Some '''') None []) =
     [\<lparr>req_method = ''POST'', req_url = ''https://www.moltbook.com/api/v1/posts'',
       req_headers = [(''Authorization'', ''Bearer KEY'')],
       req_params = None,
       req_json = Some (PDict [(''submolt'', PStr ''general''), (''content'', PStr ''hello'')]),
       req_timeout = 30\<rparr>]"
  by (simp add: create_post_def post_def request'_sent build_request_def no_kwargs_def
        init_def merge_url_def merge_headers_def API_BASE_def Let_def)

text \<open>
  Claim C3, amended. The request of \<open>create_post\<close> has the key \<open>title\<close> (and likewise
  \<open>url\<close>) in its JSON body exactly when the argument is a non-empty string, and then with
  that string; the query of \<open>posts\<close> has \<open>submolt\<close> exactly when the argument is a
  non-empty string, and then with that string; the body of \<open>dm_send\<close> has
  \<open>needs_human_input\<close> exactly when the argument is true, and then with the value true.
  In every other case (the argument is absent, the empty string, or false) the key is left
  out: no null and no false is sent.
\<close>

theorem optional_fields_follow_truthiness:
  "(\<exists>r d. snd (create_post loads self submolt content' title url sent) = sent @ [r] \<and>
      req_json r = Some (PDict d) \<and>
      map_of d ''title'' =
        (case title of None \<Rightarrow> None | Some t \<Rightarrow> if t = [] then None else Some (PStr t)) \<and>
      map_of d ''url'' =
        (case url of None \<Rightarrow> None | Some u \<Rightarrow> if u = [] then None else Some (PStr u))) \<and>
   (\<exists>r p. snd (posts loads self sort' limit submolt' sent) = sent @ [r] \<and>
      req_params r = Some (PDict p) \<and>
      map_of p ''submolt'' =
        (case submolt' of None \<Rightarrow> None | Some s \<Rightarrow> if s = [] then None else Some (PStr s))) \<and>
   (\<exists>r d. snd (dm_send loads self conversation_id message needs_human_input sent) = sent @ [r] \<and>
      req_json r = Some (PDict d) \<and>
      map_of d ''needs_human_input'' = (if needs_human_input then Some (PBool True) else None))"
  by (simp add: create_post_def posts_def dm_send_def get_def post_def request'_sent
        build_request_def no_kwargs_def dict_setitem_def Let_def update_conv'
        split: option.splits)

text \<open>
  Claim C4. For every recipient and message, the JSON body of the request of \<open>dm_request\<close>
  maps \<open>to_owner\<close> to the recipient and has no key \<open>to\<close> when \<open>by_owner\<close> is true; it maps
  \<open>to\<close> to the recipient and has no key \<open>to_owner\<close> when \<open>by_owner\<close> is false; in both cases
  it maps \<open>message\<close> to the message.
\<close>

theorem dm_request_recipient_key:
  "(\<exists>r d. snd (dm_request loads self to message True sent) = sent @ [r] \<and>
      req_json r = Some (PDict d) \<and>
      map_of d ''to_owner'' = Some (PStr to) \<and> map_of d ''to'' = None \<and>
      map_of d ''message'' = Some (PStr message)) \<and>
   (\<exists>r d. snd (dm_request loads self to message False sent) = sent @ [r] \<and>
      req_json r = Some (PDict d) \<and>
      map_of d ''to'' = Some (PStr to) \<and> map_of d ''to_owner'' = None \<and>
      map_of d ''message'' = Some (PStr message))"
  by (simp add: dm_request_def post_def request'_sent build_request_def no_kwargs_def
        dict_setitem_def Let_def)


text \<open>
  Claim C6. Let the config load as a map (the file is absent, or holds a JSON object), and
  let the decoder read back what the encoder writes for the updated map. Then
  \<open>set_config_value(x, v)\<close> succeeds, and \<open>load_config\<close> afterwards returns a map that holds
  \<open>v\<close> under \<open>x\<close> and agrees with the prior map on every other key.
\<close>

theorem set_config_value_then_load:
  assumes "load_config loads w = Inr (PDict m)"
      and "loads (dumps (PDict (dict_setitem m x (PStr v)))) = Some (PDict (dict_setitem m x (PStr v)))"
  shows "\<exists>w' m'. set_config_value loads dumps x v w = Inr w' \<and>
           load_config loads w' = Inr (PDict m') \<and>
           map_of m' x = Some (PStr v) \<and>
           (\<forall>k. k \<noteq> x \<longrightarrow> map_of m' k = map_of m k)"
  using assms
  by (simp add: set_config_value_def save_config_def get_config_dir_def load_config_def
        dict_setitem_def update_conv' Let_def)

theorem set_config_value_then_load_witness:
  "\<exists>w' m'. set_config_value sample_loads sample_dumps ''x'' ''1''
              \<lparr>config_dir = True, config_file = Some filekey_text\<rparr> = Inr w' \<and>
     load_config sample_loads w' = Inr (PDict m') \<and>
     map_of m' ''x'' = Some (PStr ''1'') \<and>
     map_of m' ''api_key'' = Some (PStr ''FILEKEY'')"
proof -
  let ?w = "\<lparr>config_dir = True, config_file = Some filekey_text\<rparr>"
  let ?m = "[(''api_key'', PStr ''FILEKEY'')]"
  have loaded: "load_config sample_loads ?w = Inr (PDict ?m)"
    by (simp add: load_config_def sample_defs)
  have codec: "sample_loads (sample_dumps (PDict (dict_setitem ?m ''x'' (PStr ''1'')))) =
      Some (PDict (dict_setitem ?m ''x'' (PStr ''1'')))"
    by (simp add: dict_setitem_def sample_defs)
  from set_config_value_then_load [where loads = sample_loads and dumps = sample_dumps
      and w = ?w and m = ?m and x = "''x''" and v = "''1''", OF loaded codec]
  obtain w' m' where
    "set_config_value sample_loads sample_dumps ''x'' ''1'' ?w = Inr w'"
    "load_config sample_loads w' = Inr (PDict m')"
    "map_of m' ''x'' = Some (PStr ''1'')"
    "\<forall>k. k \<noteq> ''x'' \<longrightarrow> map_of m' k = map_of ?m k"
    by blast
  then show ?thesis by (intro exI [of _ w'] exI [of _ m']) simp
qed

text \<open>
  Claim C7. Without a config file \<open>load_config\<close> returns the empty map; with a file whose
  text the decoder rejects it fails with the decoder's error.
\<close>

theorem load_config_missing_or_malformed:
  "(config_file w = None \<longrightarrow> load_config loads w = Inr (PDict [])) \<and>
   (\<forall>text. config_file w = Some text \<and> loads text = None \<longrightarrow>
        load_config loads w = Inl JSONDecodeError)"
  by (simp add: load_config_def)

theorem load_config_missing_or_malformed_witness:
  "load_config sample_loads \<lparr>config_dir = False, config_file = None\<rparr> = Inr (PDict []) \<and>
   load_config sample_loads \<lparr>config_dir = True, config_file = Some ''{oops''\<rparr> =
     Inl JSONDecodeError"
proof -
  have bad: "sample_loads ''{oops'' = None"
    by (simp add: sample_defs)
  have "load_config sample_loads \<lparr>config_dir = False, config_file = None\<rparr> = Inr (PDict [])"
    using load_config_missing_or_malformed
      [of "\<lparr>config_dir = False, config_file = None\<rparr>" sample_loads]
    by simp
  moreover have "load_config sample_loads \<lparr>config_dir = True, config_file = Some ''{oops''\<rparr> =
      Inl JSONDecodeError"
    using load_config_missing_or_malformed
      [of "\<lparr>config_dir = True, config_file = Some ''{oops''\<rparr>" sample_loads] bad
    by simp
  ultimately show ?thesis by simp
qed


text \<open>
  Claim C9. \<open>feed(sort="top", limit=5)\<close> issues exactly one request, a GET to \<open>/feed\<close> under
  the base URL with the query parameters \<open>sort=top\<close> and \<open>limit=5\<close>, and returns the decoded
  body of the answer as it is.
\<close>

theorem feed_top_5:
  assumes "r = \<lparr>req_method = ''GET'', req_url = ''https://www.moltbook.com/api/v1/feed'',
                req_headers = [(''Authorization'', ''Bearer '' @ key)],
                req_params = Some (PDict [(''sort'', PStr ''top''), (''limit'', PInt 5)]),
                req_json = None, req_timeout = 30\<rparr>"
      and "tr r = Inr response"
      and "loads (content response) = Some body"
  shows "feed loads (init tr key) ''top'' 5 sent = (Inr body, sent @ [r])"
  using assms
  by (simp add: feed_def get_def request'_def Client_request_def Response_json_def
        build_request_def init_def no_kwargs_def merge_url_def merge_headers_def API_BASE_def
        Let_def)

theorem feed_top_5_witness:
  "feed sample_loads (init (mock_transport 200 posts_text) ''KEY'') ''top'' 5 [] =
     (Inr (PDict [(''posts'', PList [PDict [(''id'', PStr ''abc'')]])]),
      [\<lparr>req_method = ''GET'', req_url = ''https://www.moltbook.com/api/v1/feed'',
        req_headers = [(''Authorization'', ''Bearer KEY'')],
        req_params = Some (PDict [(''sort'', PStr ''top''), (''limit'', PInt 5)]),
        req_json = None, req_timeout = 30\<rparr>])"
proof -
  let ?r = "\<lparr>req_method = ''GET'', req_url = ''https://www.moltbook.com/api/v1/feed'',
        req_headers = [(''Authorization'', ''Bearer '' @ ''KEY'')],
        req_params = Some (PDict [(''sort'', PStr ''top''), (''limit'', PInt 5)]),
        req_json = None, req_timeout = 30\<rparr>"
  let ?response = "\<lparr>status_code = 200, content = posts_text\<rparr>"
  have answer: "mock_transport 200 posts_text ?r = Inr ?response"
    by (simp add: mock_transport_def)
  have decode: "sample_loads (content ?response) =
      Some (PDict [(''posts'', PList [PDict [(''id'', PStr ''abc'')]])])"
    by (simp add: sample_defs)
  from feed_top_5 [where r = ?r and key = "''KEY''" and tr = "mock_transport 200 posts_text"
      and response = ?response and loads = sample_loads and sent = "[]", OF refl answer decode]
  show ?thesis by simp
qed

text \<open>
  Claim C10. Passing the empty string for \<open>title\<close> or \<open>url\<close> of \<open>create_post\<close>, for
  \<open>submolt\<close> of \<open>posts\<close> or for \<open>parent_id\<close> of \<open>create_comment\<close> is the same as passing
  nothing: the operation behaves identically, and the key is left out of the body or query.
\<close>

theorem empty_string_same_as_omitted:
  "create_post loads self submolt content' (Some []) url =
     create_post loads self submolt content' None url \<and>
   create_post loads self submolt content' title (Some []) =
     create_post loads self submolt content' title None \<and>
   posts loads self sort' limit (Some []) = posts loads self sort' limit None \<and>
   create_comment loads self post_id content' (Some []) =
     create_comment loads self post_id content' None \<and>
   (\<exists>r d. snd (create_post loads self submolt content' (Some []) (Some []) sent) = sent @ [r] \<and>
      req_json r = Some (PDict d) \<and> map_of d ''title'' = None \<and> map_of d ''url'' = None) \<and>
   (\<exists>r p. snd (posts loads self sort' limit (Some []) sent) = sent @ [r] \<and>
      req_params r = Some (PDict p) \<and> map_of p ''submolt'' = None) \<and>
   (\<exists>r d. snd (create_comment loads self post_id content' (Some []) sent) = sent @ [r] \<and>
      req_json r = Some (PDict d) \<and> map_of d ''parent_id'' = None)"
  by (simp add: create_post_def posts_def create_comment_def get_def post_def request'_sent
        build_request_def no_kwargs_def dict_setitem_def Let_def)

end
